theory Spec2Isabelle
  imports Complex_Main
begin

section \<open>Values of the request and of the response\<close>

text \<open>
  The gateway (server.js) reads the fields of a parsed JSON body and answers with a JSON
  object. A JSON value is one of the following; a finite number is kept as the rational
  it denotes (only whether it is zero matters to the handlers). A JavaScript value is a
  JSON value or \<open>undefined\<close>, which is what reading an absent field gives: \<open>None\<close>.
  A character of a \<open>string\<close> stands for one code unit of the JavaScript string.
\<close>

datatype json =
    Null
  | Bool bool
  | Num rat
  | Str string
  | Arr "json list"
  | Obj "(string \<times> json) list"

type_synonym jsval = "json option"

text \<open>
  The parsed request body \<open>req.body\<close>, read by field name. The body parsers in front
  of the handlers leave an object there (an empty one when the request has no body they
  parse); a field the object does not have reads as \<open>undefined\<close>.
\<close>

type_synonym req_body = "string \<rightharpoonup> json"

text \<open>
  JavaScript's conversion to a boolean, as \<open>!number\<close>, \<open>caption || ''\<close> and
  \<open>client.info ? true : false\<close> apply it: \<open>undefined\<close>, \<open>null\<close>, \<open>false\<close>,
  zero and the empty string are falsy, every array and object is truthy.
\<close>

fun truthy :: "jsval \<Rightarrow> bool" where
  "truthy None = False"
| "truthy (Some Null) = False"
| "truthy (Some (Bool b)) = b"
| "truthy (Some (Num n)) = (n \<noteq> 0)"
| "truthy (Some (Str s)) = (s \<noteq> [])"
| "truthy (Some (Arr xs)) = True"
| "truthy (Some (Obj kvs)) = True"

text \<open>A thrown value: an error object with its \<open>message\<close>.\<close>

datatype js_error = TypeError string | Error string

fun message_of :: "js_error \<Rightarrow> string" where
  "message_of (TypeError m) = m"
| "message_of (Error m) = m"

section \<open>Recipient normalization\<close>

text \<open>
  Both send handlers compute
  \<^verbatim>\<open>number.includes('@c.us') ? number : `${number.replace(/^0|\+|\D/g, '')}@c.us`\<close>.
\<close>

definition suffix_c_us :: string where
  "suffix_c_us = ''@c.us''"

definition isDigit :: "char \<Rightarrow> bool" where
  "isDigit c = (c \<in> set ''0123456789'')"

text \<open>\<open>String.prototype.includes\<close>: the pattern occurs somewhere in the string.\<close>

fun startsWith :: "string \<Rightarrow> string \<Rightarrow> bool" where
  "startsWith s [] = True"
| "startsWith [] (p # ps) = False"
| "startsWith (c # cs) (p # ps) = (c = p \<and> startsWith cs ps)"

fun str_includes :: "string \<Rightarrow> string \<Rightarrow> bool" where
  "str_includes [] p = (p = [])"
| "str_includes (c # cs) p = (startsWith (c # cs) p \<or> str_includes cs p)"

text \<open>
  The regular expression \<open>/^0|\+|\D/g\<close> matches one code unit at a time: a \<open>0\<close> at
  the very start of the input (\<open>^\<close> without the multiline flag), a plus sign, or any
  code unit that is not one of \<open>0\<close> to \<open>9\<close>. The flag \<open>atStart\<close> says whether the
  scan is at index 0 of the input.
\<close>

definition matchesAt :: "bool \<Rightarrow> char \<Rightarrow> bool" where
  "matchesAt atStart c =
     ((atStart \<and> c = CHR ''0'') \<or> c = CHR ''+'' \<or> \<not> isDigit c)"

text \<open>
  \<open>replace(re, '')\<close> with the global flag scans the input from left to right and drops
  every match; each match is one code unit long, so the scan goes on at the next index.
\<close>

fun replaceFrom :: "bool \<Rightarrow> string \<Rightarrow> string" where
  "replaceFrom atStart [] = []"
| "replaceFrom atStart (c # cs) =
     (if matchesAt atStart c then replaceFrom False cs else c # replaceFrom False cs)"

definition replace :: "string \<Rightarrow> string" where
  "replace s = replaceFrom True s"

text \<open>The conditional expression on a string \<open>number\<close>.\<close>

definition normalize_number :: "string \<Rightarrow> string" where
  "normalize_number number =
     (if str_includes number suffix_c_us then number else replace number @ suffix_c_us)"

text \<open>
  The same expression on any value of \<open>number\<close>. An array has a method \<open>includes\<close>
  (element membership) and no method \<open>replace\<close>; a number, a boolean and an object have
  neither; reading a property of \<open>undefined\<close> or \<open>null\<close> throws. Every one of these
  failures is a TypeError, thrown inside the handler's \<open>try\<close>.
\<close>

fun formattedNumber :: "jsval \<Rightarrow> js_error + jsval" where
  "formattedNumber (Some (Str s)) = Inr (Some (Str (normalize_number s)))"
| "formattedNumber (Some (Arr xs)) =
     (if Str suffix_c_us \<in> set xs then Inr (Some (Arr xs))
      else Inl (TypeError ''number.replace is not a function''))"
| "formattedNumber None =
     Inl (TypeError ''Cannot read properties of undefined (reading 'includes')'')"
| "formattedNumber (Some Null) =
     Inl (TypeError ''Cannot read properties of null (reading 'includes')'')"
| "formattedNumber (Some v) = Inl (TypeError ''number.includes is not a function'')"

section \<open>The messaging client and the handlers\<close>

text \<open>
  \<open>new MessageMedia(mimetype, data, filename)\<close> of the client library stores its three
  arguments.
\<close>

record messageMedia =
  mimetype :: jsval
  data :: jsval
  filename :: string

datatype content = Text jsval | Media messageMedia

text \<open>The options object of the image handler's call.\<close>

record sendOptions =
  caption :: jsval
  sendMediaAsDocument :: bool

text \<open>One call \<open>client.sendMessage(chatId, content, options)\<close>.\<close>

record sendCall =
  chatId :: jsval
  content :: content
  options :: "sendOptions option"

text \<open>
  The awaited call either rejects with an error or resolves to a message, of which the
  handler reads \<open>id._serialized\<close>. The client is the library's; a handler makes at most
  one call, so the client is taken as the function that gives the outcome of that call.
\<close>

datatype outcome = Rejected js_error | Resolved string

type_synonym client = "sendCall \<Rightarrow> outcome"

text \<open>
  What a handler does: the HTTP status and JSON body it answers with, and the calls it
  made to the client, in order. \<open>res.json\<close> without \<open>res.status\<close> answers 200.
\<close>

record response =
  status :: nat
  body :: json
  calls :: "sendCall list"

text \<open>\<open>app.post('/send-message', ...)\<close>\<close>

definition send_message :: "client \<Rightarrow> req_body \<Rightarrow> response" where
  "send_message client reqBody =
     (let number = reqBody ''number''; message = reqBody ''message'' in
      if \<not> truthy number \<or> \<not> truthy message then
        \<lparr>status = 400,
         body = Obj [(''success'', Bool False),
                     (''message'', Str ''Number and message are required'')],
         calls = []\<rparr>
      else
        (case formattedNumber number of
           Inl error \<Rightarrow>
             \<lparr>status = 500,
              body = Obj [(''success'', Bool False),
                          (''message'', Str ''Failed to send message''),
                          (''error'', Str (message_of error))],
              calls = []\<rparr>
         | Inr formatted \<Rightarrow>
             (let call = \<lparr>chatId = formatted, content = Text message, options = None\<rparr> in
              case client call of
                Rejected error \<Rightarrow>
                  \<lparr>status = 500,
                   body = Obj [(''success'', Bool False),
                               (''message'', Str ''Failed to send message''),
                               (''error'', Str (message_of error))],
                   calls = [call]\<rparr>
              | Resolved serialized \<Rightarrow>
                  \<lparr>status = 200,
                   body = Obj [(''success'', Bool True),
                               (''message'', Str ''Message sent successfully''),
                               (''data'', Str serialized)],
                   calls = [call]\<rparr>)))"

text \<open>
  \<open>mime.extension(type)\<close> of the package mime-types gives the extension registered for
  a content type, or \<open>false\<close> (here \<open>None\<close>) when there is none or the argument is not
  a string. The package's table is not part of the gateway: the function is a parameter.
  In the template literal \<open>`image.${...}`\<close> the value \<open>false\<close> reads \<open>false\<close>.
\<close>

type_synonym mime_extension = "jsval \<Rightarrow> string option"

fun image_filename :: "string option \<Rightarrow> string" where
  "image_filename None = ''image.false''"
| "image_filename (Some ext) = ''image.'' @ ext"

text \<open>
  \<open>app.post('/send-image', ...)\<close>. The default \<open>mimeType = 'image/jpeg'\<close> of the
  destructuring applies when the field is \<open>undefined\<close>, that is absent.
\<close>

definition send_image :: "mime_extension \<Rightarrow> client \<Rightarrow> req_body \<Rightarrow> response" where
  "send_image extension client reqBody =
     (let number = reqBody ''number'';
          caption = reqBody ''caption'';
          imageBase64 = reqBody ''imageBase64'';
          mimeType = (case reqBody ''mimeType'' of
                        None \<Rightarrow> Some (Str ''image/jpeg'')
                      | Some v \<Rightarrow> Some v) in
      if \<not> truthy imageBase64 \<or> \<not> truthy number then
        \<lparr>status = 400,
         body = Obj [(''success'', Bool False),
                     (''error'', Str ''Number and imageBase64 are required'')],
         calls = []\<rparr>
      else
        (case formattedNumber number of
           Inl error \<Rightarrow>
             \<lparr>status = 500,
              body = Obj [(''success'', Bool False),
                          (''message'', Str ''Failed to send image''),
                          (''error'', Str (message_of error))],
              calls = []\<rparr>
         | Inr formatted \<Rightarrow>
             (let media = \<lparr>mimetype = mimeType, data = imageBase64,
                           filename = image_filename (extension mimeType)\<rparr>;
                  call = \<lparr>chatId = formatted, content = Media media,
                          options = Some \<lparr>caption = (if truthy caption then caption
                                                        else Some (Str [])),
                                           sendMediaAsDocument = False\<rparr>\<rparr> in
              case client call of
                Rejected error \<Rightarrow>
                  \<lparr>status = 500,
                   body = Obj [(''success'', Bool False),
                               (''message'', Str ''Failed to send image''),
                               (''error'', Str (message_of error))],
                   calls = [call]\<rparr>
              | Resolved serialized \<Rightarrow>
                  \<lparr>status = 200,
                   body = Obj [(''success'', Bool True),
                               (''message'', Str ''Image sent successfully''),
                               (''data'', Str serialized)],
                   calls = [call]\<rparr>)))"

text \<open>
  \<open>client.info\<close> is \<open>undefined\<close> until the client has a session; then it is the
  library's ClientInfo object, of which the status handler reads \<open>wid.user\<close>,
  \<open>platform\<close> and \<open>pushname\<close>.
\<close>

record clientInfo =
  wid_user :: string
  platform :: string
  pushname :: string

text \<open>
  What one run of a synchronous handler comes to: it answers, or it throws and Express
  hands the error to the error middleware.
\<close>

datatype handled = Answers response | Throws js_error

text \<open>\<open>app.get('/status', ...)\<close>\<close>

definition get_status :: "clientInfo option \<Rightarrow> handled" where
  "get_status info =
     (let isConnected = (case info of None \<Rightarrow> False | Some i \<Rightarrow> True) in
      Answers
        \<lparr>status = 200,
         body = Obj [(''connected'', Bool isConnected),
                     (''status'', Str (if isConnected then ''Connected''
                                       else ''Waiting for connection'')),
                     (''info'', (case info of
                                   None \<Rightarrow> Null
                                 | Some i \<Rightarrow> Obj [(''wid'', Str (wid_user i)),
                                                  (''platform'', Str (platform i)),
                                                  (''pushname'', Str (pushname i))]))],
         calls = []\<rparr>)"

text \<open>The error handling middleware \<open>app.use((err, req, res, next) => ...)\<close>.\<close>

definition error_middleware :: "js_error \<Rightarrow> response" where
  "error_middleware err =
     \<lparr>status = 500,
      body = Obj [(''success'', Bool False),
                  (''message'', Str ''Internal server error''),
                  (''error'', Str (message_of err))],
      calls = []\<rparr>"

section \<open>Vocabulary of the specification\<close>

text \<open>
  The specification speaks of an address that ends with the suffix, of the canonical form
  \<open><digits>@c.us\<close>, and of the digits of the input with one leading zero stripped.
  These definitions follow its words; the theorems compare them with the code.
\<close>

definition endsWith :: "string \<Rightarrow> string \<Rightarrow> bool" where
  "endsWith s p = startsWith (rev s) (rev p)"

definition canonical :: "string \<Rightarrow> bool" where
  "canonical s =
     (endsWith s suffix_c_us \<and> list_all isDigit (take (length s - length suffix_c_us) s))"

fun dropLeadingZero :: "string \<Rightarrow> string" where
  "dropLeadingZero [] = []"
| "dropLeadingZero (c # cs) = (if c = CHR ''0'' then cs else c # cs)"

definition spec_normal_form :: "string \<Rightarrow> string" where
  "spec_normal_form x = dropLeadingZero (filter isDigit x) @ suffix_c_us"

text \<open>
  Reading the response: the field names of a JSON object in order, and the value of a
  field (\<open>None\<close> when the object has no such field).
\<close>

fun keys :: "json \<Rightarrow> string list" where
  "keys (Obj kvs) = map fst kvs"
| "keys v = []"

fun field :: "json \<Rightarrow> string \<Rightarrow> jsval" where
  "field (Obj kvs) k = map_of kvs k"
| "field v k = None"

section \<open>Properties of the normalization\<close>

lemma startsWith_append: "startsWith (p @ s) p"
  by (induction p) simp_all

lemma startsWith_iff: "startsWith s p \<longleftrightarrow> (\<exists>b. s = p @ b)"
  by (induction s p rule: startsWith.induct) auto

lemma includes_append: "str_includes (a @ p @ b) p"
proof (induction a)
  case Nil
  show ?case
    by (cases "p @ b") (use startsWith_append [of p b] in auto)
next
  case (Cons c a)
  then show ?case by simp
qed

lemma includes_suffix: "str_includes (a @ p) p"
  using includes_append [of a p "[]"] by simp

lemma str_includes_iff: "str_includes s p \<longleftrightarrow> (\<exists>a b. s = a @ p @ b)"
proof (induction s)
  case Nil
  show ?case by auto
next
  case (Cons c cs)
  show ?case
  proof
    assume "str_includes (c # cs) p"
    then consider "startsWith (c # cs) p" | "str_includes cs p" by auto
    then show "\<exists>a b. c # cs = a @ p @ b"
    proof cases
      case 1
      then obtain b where "c # cs = p @ b" using startsWith_iff by blast
      then have "c # cs = [] @ p @ b" by simp
      then show ?thesis by blast
    next
      case 2
      with Cons obtain a b where "cs = a @ p @ b" by blast
      then have "c # cs = (c # a) @ p @ b" by simp
      then show ?thesis by blast
    qed
  next
    assume "\<exists>a b. c # cs = a @ p @ b"
    then obtain a b where ab: "c # cs = a @ p @ b" by blast
    show "str_includes (c # cs) p"
      using includes_append [of a p b] ab by simp
  qed
qed

lemma endsWith_append: "endsWith (a @ p) p"
  by (simp add: endsWith_def startsWith_append)

lemma endsWith_iff: "endsWith s p \<longleftrightarrow> (\<exists>a. s = a @ p)"
proof
  assume "endsWith s p"
  then obtain b where "rev s = rev p @ b"
    using startsWith_iff [of "rev s" "rev p"] by (auto simp: endsWith_def)
  then have "rev (rev s) = rev (rev p @ b)" by simp
  then have "s = rev b @ p" by simp
  then show "\<exists>a. s = a @ p" ..
next
  assume "\<exists>a. s = a @ p"
  then show "endsWith s p" by (auto simp: endsWith_append)
qed

lemma endsWith_includes: "endsWith s p \<Longrightarrow> str_includes s p"
  by (auto simp: endsWith_iff includes_suffix)

lemma isDigit_plus: "\<not> isDigit CHR ''+''"
  by (simp add: isDigit_def)

lemma isDigit_zero: "isDigit CHR ''0''"
  by (simp add: isDigit_def)

lemma replaceFrom_False: "replaceFrom False s = filter isDigit s"
  by (induction s) (auto simp: matchesAt_def isDigit_plus)

lemma replace_eq:
  "replace s = (if startsWith s ''0'' then tl (filter isDigit s) else filter isDigit s)"
  by (cases s) (use isDigit_plus in \<open>auto simp: replace_def replaceFrom_False matchesAt_def isDigit_zero\<close>)

lemma list_all_tl: "list_all P ys \<Longrightarrow> list_all P (tl ys)"
  by (cases ys) simp_all

lemma replace_digits: "list_all isDigit (replace s)"
proof -
  have "list_all isDigit (filter isDigit s)" by (simp add: list_all_iff)
  then show ?thesis by (simp add: replace_eq list_all_tl)
qed

lemma canonical_replace: "canonical (replace s @ suffix_c_us)"
  by (simp add: canonical_def endsWith_append replace_digits)

lemma normalize_number_includes: "str_includes (normalize_number x) suffix_c_us"
  by (simp add: normalize_number_def includes_suffix)

lemma normalize_number_fixed: "normalize_number x = x \<longleftrightarrow> str_includes x suffix_c_us"
proof
  assume "normalize_number x = x"
  then show "str_includes x suffix_c_us"
    using normalize_number_includes [of x] by simp
next
  assume "str_includes x suffix_c_us"
  then show "normalize_number x = x" by (simp add: normalize_number_def)
qed

lemma normalize_number_digits:
  "\<not> str_includes x suffix_c_us \<Longrightarrow>
   normalize_number x =
     (if startsWith x ''0'' then tl (filter isDigit x) else filter isDigit x) @ suffix_c_us"
  by (simp add: normalize_number_def replace_eq)

lemma dropLeadingZero_digits:
  "startsWith x ''0'' \<or> \<not> startsWith (filter isDigit x) ''0'' \<Longrightarrow>
   dropLeadingZero (filter isDigit x) =
     (if startsWith x ''0'' then tl (filter isDigit x) else filter isDigit x)"
proof (cases x)
  case Nil
  then show ?thesis by simp
next
  case (Cons c cs)
  assume h: "startsWith x ''0'' \<or> \<not> startsWith (filter isDigit x) ''0''"
  show ?thesis
  proof (cases "c = CHR ''0''")
    case True
    with Cons show ?thesis by (simp add: isDigit_zero)
  next
    case False
    with Cons h have nz: "\<not> startsWith (filter isDigit x) ''0''" by simp
    have "dropLeadingZero d = d" if "\<not> startsWith d ''0''" for d
      using that by (cases d) auto
    from this [OF nz] Cons False show ?thesis by simp
  qed
qed

section \<open>The three ways a send handler ends\<close>

lemma send_message_invalid:
  "\<not> truthy (reqBody ''number'') \<or> \<not> truthy (reqBody ''message'') \<Longrightarrow>
   send_message client reqBody =
     \<lparr>status = 400,
      body = Obj [(''success'', Bool False),
                  (''message'', Str ''Number and message are required'')],
      calls = []\<rparr>"
  by (auto simp: send_message_def Let_def)

lemma send_message_throws:
  "truthy (reqBody ''number'') \<Longrightarrow> truthy (reqBody ''message'') \<Longrightarrow>
   formattedNumber (reqBody ''number'') = Inl e \<Longrightarrow>
   send_message client reqBody =
     \<lparr>status = 500,
      body = Obj [(''success'', Bool False),
                  (''message'', Str ''Failed to send message''),
                  (''error'', Str (message_of e))],
      calls = []\<rparr>"
  by (simp add: send_message_def Let_def)

lemma send_message_forwards:
  "truthy (reqBody ''number'') \<Longrightarrow> truthy (reqBody ''message'') \<Longrightarrow>
   formattedNumber (reqBody ''number'') = Inr f \<Longrightarrow>
   send_message client reqBody =
     (let call = \<lparr>chatId = f, content = Text (reqBody ''message''), options = None\<rparr> in
      case client call of
        Rejected e \<Rightarrow>
          \<lparr>status = 500,
           body = Obj [(''success'', Bool False),
                       (''message'', Str ''Failed to send message''),
                       (''error'', Str (message_of e))],
           calls = [call]\<rparr>
      | Resolved serialized \<Rightarrow>
          \<lparr>status = 200,
           body = Obj [(''success'', Bool True),
                       (''message'', Str ''Message sent successfully''),
                       (''data'', Str serialized)],
           calls = [call]\<rparr>)"
  by (simp add: send_message_def Let_def)

lemma send_message_calls:
  "truthy (reqBody ''number'') \<Longrightarrow> truthy (reqBody ''message'') \<Longrightarrow>
   formattedNumber (reqBody ''number'') = Inr f \<Longrightarrow>
   calls (send_message client reqBody) =
     [\<lparr>chatId = f, content = Text (reqBody ''message''), options = None\<rparr>]"
  by (simp add: send_message_forwards Let_def split: outcome.split)

lemma send_message_shapes:
  "(status (send_message client reqBody) = 400
      \<and> body (send_message client reqBody) =
          Obj [(''success'', Bool False),
               (''message'', Str ''Number and message are required'')])
   \<or> (status (send_message client reqBody) = 500
      \<and> (\<exists>e. body (send_message client reqBody) =
            Obj [(''success'', Bool False),
                 (''message'', Str ''Failed to send message''),
                 (''error'', Str e)]))
   \<or> (status (send_message client reqBody) = 200
      \<and> (\<exists>i. body (send_message client reqBody) =
            Obj [(''success'', Bool True),
                 (''message'', Str ''Message sent successfully''),
                 (''data'', Str i)]))"
  by (simp add: send_message_def Let_def split: sum.split outcome.split)

lemma send_image_invalid:
  "\<not> truthy (reqBody ''imageBase64'') \<or> \<not> truthy (reqBody ''number'') \<Longrightarrow>
   send_image extension client reqBody =
     \<lparr>status = 400,
      body = Obj [(''success'', Bool False),
                  (''error'', Str ''Number and imageBase64 are required'')],
      calls = []\<rparr>"
  by (auto simp: send_image_def Let_def)

lemma send_image_throws:
  "truthy (reqBody ''imageBase64'') \<Longrightarrow> truthy (reqBody ''number'') \<Longrightarrow>
   formattedNumber (reqBody ''number'') = Inl e \<Longrightarrow>
   send_image extension client reqBody =
     \<lparr>status = 500,
      body = Obj [(''success'', Bool False),
                  (''message'', Str ''Failed to send image''),
                  (''error'', Str (message_of e))],
      calls = []\<rparr>"
  by (simp add: send_image_def Let_def)

lemma send_image_forwards:
  "truthy (reqBody ''imageBase64'') \<Longrightarrow> truthy (reqBody ''number'') \<Longrightarrow>
   formattedNumber (reqBody ''number'') = Inr f \<Longrightarrow>
   send_image extension client reqBody =
     (let mimeType = (case reqBody ''mimeType'' of
                        None \<Rightarrow> Some (Str ''image/jpeg'')
                      | Some v \<Rightarrow> Some v);
          call = \<lparr>chatId = f,
                  content = Media \<lparr>mimetype = mimeType, data = reqBody ''imageBase64'',
                                   filename = image_filename (extension mimeType)\<rparr>,
                  options = Some \<lparr>caption = (if truthy (reqBody ''caption'')
                                                then reqBody ''caption'' else Some (Str [])),
                                   sendMediaAsDocument = False\<rparr>\<rparr> in
      case client call of
        Rejected e \<Rightarrow>
          \<lparr>status = 500,
           body = Obj [(''success'', Bool False),
                       (''message'', Str ''Failed to send image''),
                       (''error'', Str (message_of e))],
           calls = [call]\<rparr>
      | Resolved serialized \<Rightarrow>
          \<lparr>status = 200,
           body = Obj [(''success'', Bool True),
                       (''message'', Str ''Image sent successfully''),
                       (''data'', Str serialized)],
           calls = [call]\<rparr>)"
  by (simp add: send_image_def Let_def)

lemma send_image_calls:
  "truthy (reqBody ''imageBase64'') \<Longrightarrow> truthy (reqBody ''number'') \<Longrightarrow>
   formattedNumber (reqBody ''number'') = Inr f \<Longrightarrow>
   calls (send_image extension client reqBody) =
     [\<lparr>chatId = f,
       content = Media \<lparr>mimetype = (case reqBody ''mimeType'' of
                                       None \<Rightarrow> Some (Str ''image/jpeg'')
                                     | Some v \<Rightarrow> Some v),
                        data = reqBody ''imageBase64'',
                        filename = image_filename
                          (extension (case reqBody ''mimeType'' of
                                        None \<Rightarrow> Some (Str ''image/jpeg'')
                                      | Some v \<Rightarrow> Some v))\<rparr>,
       options = Some \<lparr>caption = (if truthy (reqBody ''caption'')
                                     then reqBody ''caption'' else Some (Str [])),
                        sendMediaAsDocument = False\<rparr>\<rparr>]"
  by (simp add: send_image_forwards Let_def split: outcome.split)

lemma send_image_shapes:
  "(status (send_image extension client reqBody) = 400
      \<and> body (send_image extension client reqBody) =
          Obj [(''success'', Bool False),
               (''error'', Str ''Number and imageBase64 are required'')])
   \<or> (status (send_image extension client reqBody) = 500
      \<and> (\<exists>e. body (send_image extension client reqBody) =
            Obj [(''success'', Bool False),
                 (''message'', Str ''Failed to send image''),
                 (''error'', Str e)]))
   \<or> (status (send_image extension client reqBody) = 200
      \<and> (\<exists>i. body (send_image extension client reqBody) =
            Obj [(''success'', Bool True),
                 (''message'', Str ''Image sent successfully''),
                 (''data'', Str i)]))"
  by (simp add: send_image_def Let_def split: sum.split outcome.split)

section \<open>The claims of the specification\<close>

subsection \<open>C1: what the normalization returns\<close>

text \<open>
  As stated, C1 takes the digits of the input and strips one leading zero from them. The
  code strips a zero only at index 0 of the raw input: in \<open>(0812) 3456-7890\<close>, which
  has twelve digits and no \<open>@c.us\<close>, the zero follows a parenthesis and is kept.
\<close>

theorem normalization_leading_zero_counterexample:
  "\<not> str_includes ''(0812) 3456-7890'' suffix_c_us
   \<and> length (filter isDigit ''(0812) 3456-7890'') = 12
   \<and> formattedNumber (Some (Str ''(0812) 3456-7890'')) = Inr (Some (Str ''081234567890@c.us''))
   \<and> spec_normal_form ''(0812) 3456-7890'' = ''81234567890@c.us''
   \<and> formattedNumber (Some (Str ''(0812) 3456-7890''))
       \<noteq> Inr (Some (Str (spec_normal_form ''(0812) 3456-7890'')))"
  by (simp add: suffix_c_us_def isDigit_def normalize_number_def replace_def matchesAt_def
      spec_normal_form_def)

text \<open>
  C1 (amended): for every input string that does not contain \<open>@c.us\<close>, the expression
  of both send handlers returns the digits of the input, without the first of them when
  the input itself starts with \<open>0\<close>, followed by \<open>@c.us\<close>. This is the input's digits
  with one leading zero stripped whenever the input starts with \<open>0\<close> or its first digit
  is not \<open>0\<close>. Both handlers forward exactly this address to the client.
\<close>

theorem normalization_digits:
  assumes "\<not> str_includes x suffix_c_us"
  shows "formattedNumber (Some (Str x)) =
           Inr (Some (Str ((if startsWith x ''0'' then tl (filter isDigit x)
                            else filter isDigit x) @ suffix_c_us)))
         \<and> (startsWith x ''0'' \<or> \<not> startsWith (filter isDigit x) ''0'' \<longrightarrow>
              formattedNumber (Some (Str x)) = Inr (Some (Str (spec_normal_form x))))
         \<and> (x \<noteq> [] \<and> truthy (reqBody ''message'') \<and> reqBody ''number'' = Some (Str x) \<longrightarrow>
              map chatId (calls (send_message client reqBody)) =
                [Some (Str ((if startsWith x ''0'' then tl (filter isDigit x)
                             else filter isDigit x) @ suffix_c_us))])
         \<and> (x \<noteq> [] \<and> truthy (imgBody ''imageBase64'') \<and> imgBody ''number'' = Some (Str x) \<longrightarrow>
              map chatId (calls (send_image extension client imgBody)) =
                [Some (Str ((if startsWith x ''0'' then tl (filter isDigit x)
                             else filter isDigit x) @ suffix_c_us))])"
proof -
  let ?r = "(if startsWith x ''0'' then tl (filter isDigit x) else filter isDigit x) @ suffix_c_us"
  have f: "formattedNumber (Some (Str x)) = Inr (Some (Str ?r))"
    using normalize_number_digits [OF assms] by simp
  have s: "formattedNumber (Some (Str x)) = Inr (Some (Str (spec_normal_form x)))"
    if "startsWith x ''0'' \<or> \<not> startsWith (filter isDigit x) ''0''"
    using f dropLeadingZero_digits [OF that] by (simp add: spec_normal_form_def)
  have m: "map chatId (calls (send_message client reqBody)) = [Some (Str ?r)]"
    if "x \<noteq> []" "truthy (reqBody ''message'')" "reqBody ''number'' = Some (Str x)"
  proof -
    have "truthy (reqBody ''number'')" using that by simp
    moreover have "formattedNumber (reqBody ''number'') = Inr (Some (Str ?r))"
      using f that by simp
    ultimately show ?thesis
      using that(2) by (simp add: send_message_calls)
  qed
  have i: "map chatId (calls (send_image extension client imgBody)) = [Some (Str ?r)]"
    if "x \<noteq> []" "truthy (imgBody ''imageBase64'')" "imgBody ''number'' = Some (Str x)"
  proof -
    have "truthy (imgBody ''number'')" using that by simp
    moreover have "formattedNumber (imgBody ''number'') = Inr (Some (Str ?r))"
      using f that by simp
    ultimately show ?thesis
      using that(2) by (simp add: send_image_calls)
  qed
  from f s m i show ?thesis by blast
qed

theorem normalization_digits_witness:
  "\<not> str_includes ''0812-3456-7890'' suffix_c_us
   \<and> formattedNumber (Some (Str ''0812-3456-7890'')) = Inr (Some (Str ''81234567890@c.us''))
   \<and> spec_normal_form ''0812-3456-7890'' = ''81234567890@c.us''
   \<and> map chatId (calls (send_message (\<lambda>c. Resolved ''msg1'')
        [''number'' \<mapsto> Str ''0812-3456-7890'', ''message'' \<mapsto> Str ''hi''])) =
        [Some (Str ''81234567890@c.us'')]
   \<and> map chatId (calls (send_image (\<lambda>t. Some ''jpeg'') (\<lambda>c. Resolved ''msg1'')
        [''number'' \<mapsto> Str ''0812-3456-7890'', ''imageBase64'' \<mapsto> Str ''aGk=''])) =
        [Some (Str ''81234567890@c.us'')]"
proof -
  have h: "\<not> str_includes ''0812-3456-7890'' suffix_c_us"
    by (simp add: suffix_c_us_def)
  show ?thesis
    using h normalization_digits [OF h,
      of "[''number'' \<mapsto> Str ''0812-3456-7890'', ''message'' \<mapsto> Str ''hi'']"
         "\<lambda>c. Resolved ''msg1''"
         "[''number'' \<mapsto> Str ''0812-3456-7890'', ''imageBase64'' \<mapsto> Str ''aGk='']"
         "\<lambda>t. Some ''jpeg''"]
    by (simp add: suffix_c_us_def isDigit_def spec_normal_form_def)
qed

subsection \<open>C2: when an input is passed through\<close>

text \<open>
  As stated, C2 has an input passed through exactly when it ends with \<open>@c.us\<close>. The
  code tests \<open>number.includes('@c.us')\<close>: an input that holds the suffix in the middle is
  passed through as well, although it neither ends with the suffix nor is canonical.
\<close>

theorem pass_through_counterexample:
  "formattedNumber (Some (Str ''6281234567890@c.us.id'')) = Inr (Some (Str ''6281234567890@c.us.id''))
   \<and> \<not> endsWith ''6281234567890@c.us.id'' suffix_c_us
   \<and> \<not> canonical ''6281234567890@c.us.id''"
  by (simp add: suffix_c_us_def normalize_number_def endsWith_def canonical_def)

text \<open>
  C2 (amended): the normalization passes an input string through unchanged exactly when
  the input contains \<open>@c.us\<close> somewhere, in particular when it ends with it; every other
  input is rewritten into the canonical form of some digits (possibly none) followed by
  \<open>@c.us\<close>. So every address computed from a string contains \<open>@c.us\<close>: it is the
  caller's own string, unchanged, or of canonical form.
\<close>

theorem pass_through_iff_includes:
  "formattedNumber (Some (Str x)) = Inr (Some (Str (normalize_number x)))
   \<and> (normalize_number x = x \<longleftrightarrow> str_includes x suffix_c_us)
   \<and> (str_includes x suffix_c_us \<longleftrightarrow> (\<exists>a b. x = a @ ''@c.us'' @ b))
   \<and> (endsWith x suffix_c_us \<longrightarrow> normalize_number x = x)
   \<and> (\<not> str_includes x suffix_c_us \<longrightarrow>
        normalize_number x = replace x @ suffix_c_us \<and> canonical (normalize_number x))
   \<and> (str_includes (normalize_number x) suffix_c_us)"
proof -
  have a: "formattedNumber (Some (Str x)) = Inr (Some (Str (normalize_number x)))"
    by simp
  have b: "str_includes x suffix_c_us \<longleftrightarrow> (\<exists>a b. x = a @ ''@c.us'' @ b)"
    using str_includes_iff [of x suffix_c_us] by (simp only: suffix_c_us_def)
  have c: "endsWith x suffix_c_us \<longrightarrow> normalize_number x = x"
    using endsWith_includes normalize_number_fixed by blast
  have d: "\<not> str_includes x suffix_c_us \<longrightarrow>
      normalize_number x = replace x @ suffix_c_us \<and> canonical (normalize_number x)"
    by (simp add: normalize_number_def canonical_replace)
  show ?thesis
    using a b c d normalize_number_fixed [of x] normalize_number_includes [of x]
    by (intro conjI) assumption+
qed

theorem pass_through_iff_includes_witness:
  "endsWith ''81234567890@c.us'' suffix_c_us
   \<and> normalize_number ''81234567890@c.us'' = ''81234567890@c.us''
   \<and> \<not> str_includes ''0812-3456-7890'' suffix_c_us
   \<and> normalize_number ''0812-3456-7890'' = ''81234567890@c.us''
   \<and> canonical (normalize_number ''0812-3456-7890'')"
proof -
  have e: "endsWith ''81234567890@c.us'' suffix_c_us"
    by (simp add: endsWith_def suffix_c_us_def)
  have n: "\<not> str_includes ''0812-3456-7890'' suffix_c_us"
    by (simp add: suffix_c_us_def)
  have r: "replace ''0812-3456-7890'' = ''81234567890''"
    by (simp add: replace_def matchesAt_def isDigit_def)
  show ?thesis
    using e n r pass_through_iff_includes [of "''81234567890@c.us''"]
      pass_through_iff_includes [of "''0812-3456-7890''"]
    by (simp add: suffix_c_us_def canonical_def endsWith_def isDigit_def)
qed

subsection \<open>C3: idempotence\<close>

text \<open>
  C3: the normalization is idempotent. For every string \<open>x\<close> the handlers' expression
  turns \<open>x\<close> into \<open>normalize_number x\<close>, normalizing that result again returns it
  unchanged, and an address that already is some digits followed by \<open>@c.us\<close> is returned
  unchanged.
\<close>

theorem normalize_idempotent:
  "formattedNumber (Some (Str x)) = Inr (Some (Str (normalize_number x)))
   \<and> formattedNumber (Some (Str (normalize_number x))) = Inr (Some (Str (normalize_number x)))
   \<and> normalize_number (normalize_number x) = normalize_number x
   \<and> normalize_number (filter isDigit d @ suffix_c_us) = filter isDigit d @ suffix_c_us"
proof -
  have "normalize_number (normalize_number x) = normalize_number x"
    using normalize_number_includes [of x] by (simp add: normalize_number_def [of "normalize_number x"])
  moreover have "normalize_number (filter isDigit d @ suffix_c_us) = filter isDigit d @ suffix_c_us"
    by (simp add: normalize_number_def includes_suffix)
  ultimately show ?thesis by simp
qed

theorem normalize_idempotent_witness:
  "normalize_number (normalize_number ''0812-3456-7890'') = normalize_number ''0812-3456-7890''
   \<and> normalize_number ''81234567890@c.us'' = ''81234567890@c.us''"
  using normalize_idempotent [of "''0812-3456-7890''" "''81234567890''"]
  by (simp add: isDigit_def suffix_c_us_def)

subsection \<open>C4: required fields of /send-message\<close>

text \<open>
  C4: when the field \<open>number\<close> or the field \<open>message\<close> is missing from the body,
  \<open>POST /send-message\<close> answers status 400 with \<open>success: false\<close> and makes no call
  to the client.
\<close>

theorem send_message_missing_field:
  assumes "reqBody ''number'' = None \<or> reqBody ''message'' = None"
  shows "send_message client reqBody =
           \<lparr>status = 400,
            body = Obj [(''success'', Bool False),
                        (''message'', Str ''Number and message are required'')],
            calls = []\<rparr>"
proof -
  from assms have "\<not> truthy (reqBody ''number'') \<or> \<not> truthy (reqBody ''message'')"
    by auto
  then show ?thesis by (rule send_message_invalid)
qed

theorem send_message_missing_field_witness:
  "status (send_message (\<lambda>c. Resolved ''msg1'') [''message'' \<mapsto> Str ''hi'']) = 400
   \<and> calls (send_message (\<lambda>c. Resolved ''msg1'') [''message'' \<mapsto> Str ''hi'']) = []
   \<and> field (body (send_message (\<lambda>c. Resolved ''msg1'') [''number'' \<mapsto> Str ''081234567890'']))
        ''success'' = Some (Bool False)
   \<and> calls (send_message (\<lambda>c. Resolved ''msg1'') [''number'' \<mapsto> Str ''081234567890'']) = []"
  using send_message_missing_field [of "[''message'' \<mapsto> Str ''hi'']" "\<lambda>c. Resolved ''msg1''"]
    send_message_missing_field [of "[''number'' \<mapsto> Str ''081234567890'']"
      "\<lambda>c. Resolved ''msg1''"]
  by simp

subsection \<open>C5: required fields and default mime type of /send-image\<close>

text \<open>
  C5: when \<open>imageBase64\<close> or \<open>number\<close> is missing, \<open>POST /send-image\<close> answers
  status 400 and makes no call to the client; and when \<open>mimeType\<close> is omitted and the
  request passes the checks and the normalization, the media handed to the client has
  the mime type \<open>image/jpeg\<close> and a file name derived from that mime type: \<open>image.\<close>
  followed by the extension \<open>ext\<close> that \<open>mime.extension\<close> gives for \<open>image/jpeg\<close>,
  and \<open>image.false\<close> if it gives none.
\<close>

theorem send_image_missing_field:
  "(reqBody ''imageBase64'' = None \<or> reqBody ''number'' = None \<longrightarrow>
      send_image extension client reqBody =
        \<lparr>status = 400,
         body = Obj [(''success'', Bool False),
                     (''error'', Str ''Number and imageBase64 are required'')],
         calls = []\<rparr>)
   \<and> (reqBody ''mimeType'' = None \<and> truthy (reqBody ''imageBase64'')
        \<and> truthy (reqBody ''number'') \<and> formattedNumber (reqBody ''number'') = Inr f
        \<and> extension (Some (Str ''image/jpeg'')) = Some ext \<longrightarrow>
      map content (calls (send_image extension client reqBody)) =
        [Media \<lparr>mimetype = Some (Str ''image/jpeg''),
                data = reqBody ''imageBase64'',
                filename = ''image.'' @ ext\<rparr>])
   \<and> (reqBody ''mimeType'' = None \<and> truthy (reqBody ''imageBase64'')
        \<and> truthy (reqBody ''number'') \<and> formattedNumber (reqBody ''number'') = Inr f
        \<and> extension (Some (Str ''image/jpeg'')) = None \<longrightarrow>
      map content (calls (send_image extension client reqBody)) =
        [Media \<lparr>mimetype = Some (Str ''image/jpeg''),
                data = reqBody ''imageBase64'',
                filename = ''image.false''\<rparr>])"
proof -
  have invalid: "send_image extension client reqBody =
        \<lparr>status = 400,
         body = Obj [(''success'', Bool False),
                     (''error'', Str ''Number and imageBase64 are required'')],
         calls = []\<rparr>"
    if "reqBody ''imageBase64'' = None \<or> reqBody ''number'' = None"
  proof -
    from that have "\<not> truthy (reqBody ''imageBase64'') \<or> \<not> truthy (reqBody ''number'')"
      by auto
    then show ?thesis by (rule send_image_invalid)
  qed
  have media: "map content (calls (send_image extension client reqBody)) =
        [Media \<lparr>mimetype = Some (Str ''image/jpeg''),
                data = reqBody ''imageBase64'',
                filename = image_filename (extension (Some (Str ''image/jpeg'')))\<rparr>]"
    if "reqBody ''mimeType'' = None" "truthy (reqBody ''imageBase64'')"
      "truthy (reqBody ''number'')" "formattedNumber (reqBody ''number'') = Inr f"
    using send_image_calls [OF that(2) that(3) that(4), of extension client] that(1)
    by simp
  have named: "map content (calls (send_image extension client reqBody)) =
        [Media \<lparr>mimetype = Some (Str ''image/jpeg''),
                data = reqBody ''imageBase64'',
                filename = ''image.'' @ ext\<rparr>]"
    if "reqBody ''mimeType'' = None \<and> truthy (reqBody ''imageBase64'')
        \<and> truthy (reqBody ''number'') \<and> formattedNumber (reqBody ''number'') = Inr f
        \<and> extension (Some (Str ''image/jpeg'')) = Some ext"
    using that media by simp
  have unnamed: "map content (calls (send_image extension client reqBody)) =
        [Media \<lparr>mimetype = Some (Str ''image/jpeg''),
                data = reqBody ''imageBase64'',
                filename = ''image.false''\<rparr>]"
    if "reqBody ''mimeType'' = None \<and> truthy (reqBody ''imageBase64'')
        \<and> truthy (reqBody ''number'') \<and> formattedNumber (reqBody ''number'') = Inr f
        \<and> extension (Some (Str ''image/jpeg'')) = None"
    using that media by simp
  from invalid named unnamed show ?thesis by blast
qed

theorem send_image_missing_field_witness:
  "status (send_image (\<lambda>t. if t = Some (Str ''image/jpeg'') then Some ''jpeg'' else None)
       (\<lambda>c. Resolved ''msg1'') [''number'' \<mapsto> Str ''081234567890'']) = 400
   \<and> calls (send_image (\<lambda>t. if t = Some (Str ''image/jpeg'') then Some ''jpeg'' else None)
       (\<lambda>c. Resolved ''msg1'') [''number'' \<mapsto> Str ''081234567890'']) = []
   \<and> map content (calls (send_image
         (\<lambda>t. if t = Some (Str ''image/jpeg'') then Some ''jpeg'' else None)
         (\<lambda>c. Resolved ''msg1'')
         [''number'' \<mapsto> Str ''081234567890'', ''imageBase64'' \<mapsto> Str ''aGk=''])) =
       [Media \<lparr>mimetype = Some (Str ''image/jpeg''), data = Some (Str ''aGk=''),
               filename = ''image.jpeg''\<rparr>]
   \<and> map content (calls (send_image
         (\<lambda>t. if t = Some (Str ''image/jpeg'') then Some ''jpe'' else None)
         (\<lambda>c. Resolved ''msg1'')
         [''number'' \<mapsto> Str ''081234567890'', ''imageBase64'' \<mapsto> Str ''aGk=''])) =
       [Media \<lparr>mimetype = Some (Str ''image/jpeg''), data = Some (Str ''aGk=''),
               filename = ''image.jpe''\<rparr>]
   \<and> map content (calls (send_image (\<lambda>t. None) (\<lambda>c. Resolved ''msg1'')
         [''number'' \<mapsto> Str ''081234567890'', ''imageBase64'' \<mapsto> Str ''aGk=''])) =
       [Media \<lparr>mimetype = Some (Str ''image/jpeg''), data = Some (Str ''aGk=''),
               filename = ''image.false''\<rparr>]"
proof -
  have n: "formattedNumber (Some (Str ''081234567890'')) = Inr (Some (Str ''81234567890@c.us''))"
    by (simp add: normalize_number_def suffix_c_us_def replace_def matchesAt_def isDigit_def)
  show ?thesis
    using n
      send_image_missing_field
        [where reqBody = "[''number'' \<mapsto> Str ''081234567890'']"
           and extension = "\<lambda>t. if t = Some (Str ''image/jpeg'') then Some ''jpeg'' else None"
           and client = "\<lambda>c. Resolved ''msg1''"]
      send_image_missing_field
        [where reqBody = "[''number'' \<mapsto> Str ''081234567890'', ''imageBase64'' \<mapsto> Str ''aGk='']"
           and f = "Some (Str ''81234567890@c.us'')" and ext = "''jpeg''"
           and extension = "\<lambda>t. if t = Some (Str ''image/jpeg'') then Some ''jpeg'' else None"
           and client = "\<lambda>c. Resolved ''msg1''"]
      send_image_missing_field
        [where reqBody = "[''number'' \<mapsto> Str ''081234567890'', ''imageBase64'' \<mapsto> Str ''aGk='']"
           and f = "Some (Str ''81234567890@c.us'')" and ext = "''jpe''"
           and extension = "\<lambda>t. if t = Some (Str ''image/jpeg'') then Some ''jpe'' else None"
           and client = "\<lambda>c. Resolved ''msg1''"]
      send_image_missing_field
        [where reqBody = "[''number'' \<mapsto> Str ''081234567890'', ''imageBase64'' \<mapsto> Str ''aGk='']"
           and f = "Some (Str ''81234567890@c.us'')"
           and extension = "\<lambda>t. None"
           and client = "\<lambda>c. Resolved ''msg1''"]
    by simp
qed

subsection \<open>C6: the shape of a failure response\<close>

text \<open>
  As stated, C6 gives every failure response the three fields \<open>success\<close>, \<open>message\<close>
  and \<open>error\<close>. The 400 response of \<open>/send-message\<close> has no field \<open>error\<close>, and the
  400 response of \<open>/send-image\<close> has no field \<open>message\<close>.
\<close>

theorem failure_shape_counterexample:
  "status (send_message (\<lambda>c. Resolved ''msg1'') Map.empty) = 400
   \<and> keys (body (send_message (\<lambda>c. Resolved ''msg1'') Map.empty)) = [''success'', ''message'']
   \<and> field (body (send_message (\<lambda>c. Resolved ''msg1'') Map.empty)) ''error'' = None
   \<and> status (send_image (\<lambda>t. Some ''jpeg'') (\<lambda>c. Resolved ''msg1'') Map.empty) = 400
   \<and> keys (body (send_image (\<lambda>t. Some ''jpeg'') (\<lambda>c. Resolved ''msg1'') Map.empty)) =
        [''success'', ''error'']
   \<and> field (body (send_image (\<lambda>t. Some ''jpeg'') (\<lambda>c. Resolved ''msg1'') Map.empty))
        ''message'' = None"
  by (simp add: send_message_def send_image_def)

text \<open>
  C6 (amended): every failure response of the two send handlers and of the error
  middleware has \<open>success: false\<close>. The 500 responses (a failure of the client or an
  error thrown in the handler, and the catch-all middleware) have exactly the fields
  \<open>success\<close>, \<open>message\<close>, \<open>error\<close>; the 400 response of \<open>/send-message\<close> has
  \<open>success\<close> and \<open>message\<close> only, that of \<open>/send-image\<close> has \<open>success\<close> and
  \<open>error\<close> only.
\<close>

theorem failure_shape:
  "(status (send_message client reqBody) \<noteq> 200 \<longrightarrow>
      field (body (send_message client reqBody)) ''success'' = Some (Bool False))
   \<and> (status (send_message client reqBody) = 500 \<longrightarrow>
      keys (body (send_message client reqBody)) = [''success'', ''message'', ''error''])
   \<and> (status (send_message client reqBody) = 400 \<longrightarrow>
      keys (body (send_message client reqBody)) = [''success'', ''message''])
   \<and> (status (send_image extension client reqBody) \<noteq> 200 \<longrightarrow>
      field (body (send_image extension client reqBody)) ''success'' = Some (Bool False))
   \<and> (status (send_image extension client reqBody) = 500 \<longrightarrow>
      keys (body (send_image extension client reqBody)) = [''success'', ''message'', ''error''])
   \<and> (status (send_image extension client reqBody) = 400 \<longrightarrow>
      keys (body (send_image extension client reqBody)) = [''success'', ''error''])
   \<and> status (error_middleware err) = 500
   \<and> field (body (error_middleware err)) ''success'' = Some (Bool False)
   \<and> keys (body (error_middleware err)) = [''success'', ''message'', ''error'']"
proof -
  have m: "(status (send_message client reqBody) \<noteq> 200 \<longrightarrow>
      field (body (send_message client reqBody)) ''success'' = Some (Bool False))
   \<and> (status (send_message client reqBody) = 500 \<longrightarrow>
      keys (body (send_message client reqBody)) = [''success'', ''message'', ''error''])
   \<and> (status (send_message client reqBody) = 400 \<longrightarrow>
      keys (body (send_message client reqBody)) = [''success'', ''message''])"
    using send_message_shapes [of client reqBody] by auto
  have i: "(status (send_image extension client reqBody) \<noteq> 200 \<longrightarrow>
      field (body (send_image extension client reqBody)) ''success'' = Some (Bool False))
   \<and> (status (send_image extension client reqBody) = 500 \<longrightarrow>
      keys (body (send_image extension client reqBody)) = [''success'', ''message'', ''error''])
   \<and> (status (send_image extension client reqBody) = 400 \<longrightarrow>
      keys (body (send_image extension client reqBody)) = [''success'', ''error''])"
    using send_image_shapes [of extension client reqBody] by auto
  have e: "status (error_middleware err) = 500
   \<and> field (body (error_middleware err)) ''success'' = Some (Bool False)
   \<and> keys (body (error_middleware err)) = [''success'', ''message'', ''error'']"
    by (simp add: error_middleware_def)
  from m i e show ?thesis by blast
qed

theorem failure_shape_witness:
  "status (send_message (\<lambda>c. Rejected (Error ''Evaluation failed''))
       [''number'' \<mapsto> Str ''081234567890'', ''message'' \<mapsto> Str ''hi'']) = 500
   \<and> keys (body (send_message (\<lambda>c. Rejected (Error ''Evaluation failed''))
       [''number'' \<mapsto> Str ''081234567890'', ''message'' \<mapsto> Str ''hi''])) =
       [''success'', ''message'', ''error'']
   \<and> status (send_message (\<lambda>c. Rejected (Error ''Evaluation failed'')) Map.empty) = 400
   \<and> keys (body (send_message (\<lambda>c. Rejected (Error ''Evaluation failed'')) Map.empty)) =
       [''success'', ''message'']
   \<and> status (send_image (\<lambda>t. Some ''jpeg'') (\<lambda>c. Rejected (Error ''Evaluation failed''))
       [''number'' \<mapsto> Str ''081234567890'', ''imageBase64'' \<mapsto> Str ''aGk='']) = 500
   \<and> keys (body (send_image (\<lambda>t. Some ''jpeg'') (\<lambda>c. Rejected (Error ''Evaluation failed''))
       [''number'' \<mapsto> Str ''081234567890'', ''imageBase64'' \<mapsto> Str ''aGk=''])) =
       [''success'', ''message'', ''error'']
   \<and> status (send_image (\<lambda>t. Some ''jpeg'') (\<lambda>c. Rejected (Error ''Evaluation failed''))
       Map.empty) = 400
   \<and> keys (body (send_image (\<lambda>t. Some ''jpeg'') (\<lambda>c. Rejected (Error ''Evaluation failed''))
       Map.empty)) = [''success'', ''error'']
   \<and> field (body (send_image (\<lambda>t. Some ''jpeg'') (\<lambda>c. Rejected (Error ''Evaluation failed''))
       Map.empty)) ''success'' = Some (Bool False)"
proof -
  have a: "status (send_message (\<lambda>c. Rejected (Error ''Evaluation failed''))
       [''number'' \<mapsto> Str ''081234567890'', ''message'' \<mapsto> Str ''hi'']) = 500"
    by (simp add: send_message_def)
  have b: "status (send_message (\<lambda>c. Rejected (Error ''Evaluation failed'')) Map.empty) = 400"
    by (simp add: send_message_def)
  have c: "status (send_image (\<lambda>t. Some ''jpeg'') (\<lambda>c. Rejected (Error ''Evaluation failed''))
       [''number'' \<mapsto> Str ''081234567890'', ''imageBase64'' \<mapsto> Str ''aGk='']) = 500"
    by (simp add: send_image_def)
  have d: "status (send_image (\<lambda>t. Some ''jpeg'') (\<lambda>c. Rejected (Error ''Evaluation failed''))
       Map.empty) = 400"
    by (simp add: send_image_def)
  show ?thesis
    using a b c d
      failure_shape [where client = "\<lambda>c. Rejected (Error ''Evaluation failed'')"
        and reqBody = "[''number'' \<mapsto> Str ''081234567890'', ''message'' \<mapsto> Str ''hi'']"
        and extension = "\<lambda>t. Some ''jpeg''" and err = "Error ''x''"]
      failure_shape [where client = "\<lambda>c. Rejected (Error ''Evaluation failed'')"
        and reqBody = "[''number'' \<mapsto> Str ''081234567890'', ''imageBase64'' \<mapsto> Str ''aGk='']"
        and extension = "\<lambda>t. Some ''jpeg''" and err = "Error ''x''"]
      failure_shape [where client = "\<lambda>c. Rejected (Error ''Evaluation failed'')"
        and reqBody = "Map.empty"
        and extension = "\<lambda>t. Some ''jpeg''" and err = "Error ''x''"]
    by simp
qed

subsection \<open>C7: the status endpoint\<close>

text \<open>
  C7: \<open>GET /status\<close> never throws. Without a session it answers exactly
  \<open>{connected: false, status: "Waiting for connection", info: null}\<close>; with a session
  it answers \<open>connected: true\<close> and the session's user id, platform and display name.
\<close>

theorem get_status_answers:
  "get_status None =
     Answers \<lparr>status = 200,
              body = Obj [(''connected'', Bool False),
                          (''status'', Str ''Waiting for connection''),
                          (''info'', Null)],
              calls = []\<rparr>
   \<and> get_status (Some session) =
     Answers \<lparr>status = 200,
              body = Obj [(''connected'', Bool True),
                          (''status'', Str ''Connected''),
                          (''info'', Obj [(''wid'', Str (wid_user session)),
                                          (''platform'', Str (platform session)),
                                          (''pushname'', Str (pushname session))])],
              calls = []\<rparr>
   \<and> (\<exists>r. get_status info = Answers r)
   \<and> (\<nexists>e. get_status info = Throws e)"
  by (simp add: get_status_def Let_def)

theorem get_status_answers_witness:
  "get_status (Some \<lparr>wid_user = ''6281234567890'', platform = ''android'', pushname = ''Arief''\<rparr>) =
     Answers \<lparr>status = 200,
              body = Obj [(''connected'', Bool True),
                          (''status'', Str ''Connected''),
                          (''info'', Obj [(''wid'', Str ''6281234567890''),
                                          (''platform'', Str ''android''),
                                          (''pushname'', Str ''Arief'')])],
              calls = []\<rparr>"
  using get_status_answers
    [of "\<lparr>wid_user = ''6281234567890'', platform = ''android'', pushname = ''Arief''\<rparr>"]
  by simp

subsection \<open>C8: the example of a message that is sent\<close>

text \<open>
  C8: for a body with \<open>number: "081234567890"\<close> and \<open>message: "hi"\<close>,
  \<open>POST /send-message\<close> makes one call to the client, with the address
  \<open>81234567890@c.us\<close> and the text \<open>hi\<close>; whenever that call resolves to a message
  id, the response is status 200 with
  \<open>{success: true, message: "Message sent successfully", data: <that id>}\<close>.
\<close>

theorem send_message_example:
  assumes "reqBody ''number'' = Some (Str ''081234567890'')"
    and "reqBody ''message'' = Some (Str ''hi'')"
  shows "(\<exists>call. calls (send_message client reqBody) = [call]
            \<and> call = \<lparr>chatId = Some (Str ''81234567890@c.us''),
                       content = Text (Some (Str ''hi'')), options = None\<rparr>
            \<and> (\<forall>serialized. client call = Resolved serialized \<longrightarrow>
                  status (send_message client reqBody) = 200
                  \<and> body (send_message client reqBody) =
                      Obj [(''success'', Bool True),
                           (''message'', Str ''Message sent successfully''),
                           (''data'', Str serialized)]))"
proof -
  have n: "formattedNumber (reqBody ''number'') = Inr (Some (Str ''81234567890@c.us''))"
    using assms(1)
    by (simp add: normalize_number_def suffix_c_us_def replace_def matchesAt_def isDigit_def)
  have t: "truthy (reqBody ''number'')" "truthy (reqBody ''message'')"
    using assms by simp_all
  show ?thesis
    using send_message_forwards [OF t n, of client] assms(2)
    by (simp add: Let_def split: outcome.split)
qed

theorem send_message_example_witness:
  "calls (send_message (\<lambda>c. Resolved ''true_6281234567890@c.us_3EB0'')
      [''number'' \<mapsto> Str ''081234567890'', ''message'' \<mapsto> Str ''hi'']) =
     [\<lparr>chatId = Some (Str ''81234567890@c.us''), content = Text (Some (Str ''hi'')),
       options = None\<rparr>]
   \<and> status (send_message (\<lambda>c. Resolved ''true_6281234567890@c.us_3EB0'')
      [''number'' \<mapsto> Str ''081234567890'', ''message'' \<mapsto> Str ''hi'']) = 200
   \<and> body (send_message (\<lambda>c. Resolved ''true_6281234567890@c.us_3EB0'')
      [''number'' \<mapsto> Str ''081234567890'', ''message'' \<mapsto> Str ''hi'']) =
     Obj [(''success'', Bool True), (''message'', Str ''Message sent successfully''),
          (''data'', Str ''true_6281234567890@c.us_3EB0'')]"
  using send_message_example
    [where reqBody = "[''number'' \<mapsto> Str ''081234567890'', ''message'' \<mapsto> Str ''hi'']"
       and client = "\<lambda>c. Resolved ''true_6281234567890@c.us_3EB0''"]
  by auto

subsection \<open>C9: the example of a client failure\<close>

text \<open>
  C9: for a body with both fields present, when the call that \<open>POST /send-message\<close>
  makes to the client is rejected with an error whose message is \<open>Evaluation failed\<close>,
  the response is status 500 with exactly
  \<open>{success: false, message: "Failed to send message", error: "Evaluation failed"}\<close>.
\<close>

theorem send_message_adapter_failure:
  assumes "reqBody ''number'' = Some n" and "reqBody ''message'' = Some m"
    and "calls (send_message client reqBody) = [call]"
    and "client call = Rejected e" and "message_of e = ''Evaluation failed''"
  shows "status (send_message client reqBody) = 500
         \<and> body (send_message client reqBody) =
             Obj [(''success'', Bool False),
                  (''message'', Str ''Failed to send message''),
                  (''error'', Str ''Evaluation failed'')]"
  using assms
  by (auto simp: send_message_def Let_def split: if_splits sum.splits outcome.splits)

theorem send_message_adapter_failure_witness:
  "status (send_message (\<lambda>c. Rejected (Error ''Evaluation failed''))
      [''number'' \<mapsto> Str ''081234567890'', ''message'' \<mapsto> Str ''hi'']) = 500
   \<and> body (send_message (\<lambda>c. Rejected (Error ''Evaluation failed''))
      [''number'' \<mapsto> Str ''081234567890'', ''message'' \<mapsto> Str ''hi'']) =
     Obj [(''success'', Bool False), (''message'', Str ''Failed to send message''),
          (''error'', Str ''Evaluation failed'')]"
proof -
  have c: "calls (send_message (\<lambda>c. Rejected (Error ''Evaluation failed''))
      [''number'' \<mapsto> Str ''081234567890'', ''message'' \<mapsto> Str ''hi'']) =
     [\<lparr>chatId = Some (Str ''81234567890@c.us''), content = Text (Some (Str ''hi'')),
       options = None\<rparr>]"
    by (simp add: send_message_def normalize_number_def suffix_c_us_def replace_def
        matchesAt_def isDigit_def)
  show ?thesis
    by (rule send_message_adapter_failure
        [where n = "Str ''081234567890''" and m = "Str ''hi''"
           and e = "Error ''Evaluation failed''", OF _ _ c]) simp_all
qed

subsection \<open>C10: a falsy field counts as missing\<close>

text \<open>
  C10: a field \<open>number\<close>, \<open>message\<close> or \<open>imageBase64\<close> whose value is falsy, the
  empty string in particular, makes the handler answer exactly as if the field were
  absent: status 400 and no call to the client.
\<close>

theorem falsy_field_is_missing:
  assumes "\<not> truthy (Some v)"
  shows "send_message client (reqBody(''number'' \<mapsto> v)) =
           send_message client (reqBody(''number'' := None))
         \<and> status (send_message client (reqBody(''number'' \<mapsto> v))) = 400
         \<and> calls (send_message client (reqBody(''number'' \<mapsto> v))) = []
         \<and> send_message client (reqBody(''message'' \<mapsto> v)) =
           send_message client (reqBody(''message'' := None))
         \<and> status (send_message client (reqBody(''message'' \<mapsto> v))) = 400
         \<and> calls (send_message client (reqBody(''message'' \<mapsto> v))) = []
         \<and> send_image extension client (reqBody(''number'' \<mapsto> v)) =
           send_image extension client (reqBody(''number'' := None))
         \<and> status (send_image extension client (reqBody(''number'' \<mapsto> v))) = 400
         \<and> calls (send_image extension client (reqBody(''number'' \<mapsto> v))) = []
         \<and> send_image extension client (reqBody(''imageBase64'' \<mapsto> v)) =
           send_image extension client (reqBody(''imageBase64'' := None))
         \<and> status (send_image extension client (reqBody(''imageBase64'' \<mapsto> v))) = 400
         \<and> calls (send_image extension client (reqBody(''imageBase64'' \<mapsto> v))) = []"
  using assms by (simp add: send_message_invalid send_image_invalid)

theorem falsy_field_is_missing_witness:
  "\<not> truthy (Some (Str []))
   \<and> send_message (\<lambda>c. Resolved ''msg1'') [''message'' \<mapsto> Str ''hi'', ''number'' \<mapsto> Str []] =
       send_message (\<lambda>c. Resolved ''msg1'') [''message'' \<mapsto> Str ''hi'']
   \<and> status (send_message (\<lambda>c. Resolved ''msg1'')
        [''message'' \<mapsto> Str ''hi'', ''number'' \<mapsto> Str []]) = 400
   \<and> calls (send_message (\<lambda>c. Resolved ''msg1'')
        [''number'' \<mapsto> Str ''081234567890'', ''message'' \<mapsto> Str []]) = []
   \<and> status (send_image (\<lambda>t. Some ''jpeg'') (\<lambda>c. Resolved ''msg1'')
        [''number'' \<mapsto> Str ''081234567890'', ''imageBase64'' \<mapsto> Str []]) = 400
   \<and> calls (send_image (\<lambda>t. Some ''jpeg'') (\<lambda>c. Resolved ''msg1'')
        [''number'' \<mapsto> Str ''081234567890'', ''imageBase64'' \<mapsto> Str []]) = []"
proof -
  have h: "\<not> truthy (Some (Str []))" by simp
  have e: "[''message'' \<mapsto> Str ''hi''] = ([''message'' \<mapsto> Str ''hi''])(''number'' := None)"
    by simp
  show ?thesis
    using h e
      falsy_field_is_missing [OF h, where reqBody = "[''message'' \<mapsto> Str ''hi'']"
        and client = "\<lambda>c. Resolved ''msg1''" and extension = "\<lambda>t. Some ''jpeg''"]
      falsy_field_is_missing [OF h, where reqBody = "[''number'' \<mapsto> Str ''081234567890'']"
        and client = "\<lambda>c. Resolved ''msg1''" and extension = "\<lambda>t. Some ''jpeg''"]
    by (simp add: send_message_def send_image_def)
qed

end
